theory Spec2Isabelle
  imports Main "HOL-Library.Word"
begin

section \<open>Data model\<close>

text \<open>
  The program is one translation unit: the classes \<open>WidgetImpl\<close> (a record stored by
  value) and \<open>Widget\<close> (a handle owning one heap-allocated \<open>WidgetImpl\<close> through a
  \<open>unique_ptr\<close>), and \<open>main\<close>, which fills a \<open>vector<WidgetImpl>\<close> and a
  \<open>vector<Widget>\<close> and times the two fills.

  A C++ \<open>int\<close> is a 32-bit word read as two's complement. A \<open>double\<close> is the 64-bit
  pattern it is stored as: the program only stores and copies doubles, it never computes
  with them, and the literal \<open>0.0\<close> is the all-zero pattern. Equality of two doubles
  below is equality of the stored patterns.
\<close>

type_synonym cint = "32 word"
type_synonym double = "64 word"
type_synonym addr = nat

text \<open>
  \<open>class WidgetImpl { int i; double b, c, d; string name; double arr[10]; }\<close>
\<close>

record WidgetImpl =
  i :: cint
  b :: double
  c :: double
  d :: double
  name :: string
  arr :: "double list"

text \<open>\<open>class Widget { unique_ptr<WidgetImpl> pimpl; }\<close>; \<open>None\<close> is \<open>nullptr\<close>.\<close>

record Widget =
  pimpl :: "addr option"

text \<open>The free store: the \<open>WidgetImpl\<close> objects alive on the heap, by address.\<close>

type_synonym heap = "addr \<rightharpoonup> WidgetImpl"

text \<open>
  A \<open>std::vector\<close>: its elements in order, and the capacity of its buffer.
  \<open>size()\<close> is the length of \<open>elems\<close>.
\<close>

record 'a vec =
  elems :: "'a list"
  capacity :: nat

text \<open>
  What can end a run: \<open>std::bad_alloc\<close> thrown by an allocation and never caught, and
  the undefined behaviours the code does not guard against: reading through a null
  \<open>pimpl\<close>, reading through a \<open>pimpl\<close> whose payload has been released, and
  \<open>operator[]\<close> past the end.
\<close>

datatype error = BadAlloc | NullDeref | DanglingDeref | OutOfRange

text \<open>
  What the environment answers to one statement of the program. The allocator, the
  contents of storage nobody has written and the growth policy of \<open>std::vector\<close> are
  not code of this program; they are inputs of the model.
  \<^item> \<open>ok\<close>: no allocation the statement requests fails (the strings of a record, a heap
    payload, a larger vector buffer);
  \<^item> \<open>fresh\<close>: the address \<open>operator new\<close> returns for a heap payload;
  \<^item> \<open>heap_junk\<close>: the ten doubles that storage held before the payload is constructed;
  \<^item> \<open>tmp_junk\<close>: the same for the temporary that is the argument of \<open>push_back\<close>;
  \<^item> \<open>junk k\<close>: the same for slot \<open>k\<close> of the vector buffer the statement constructs into.
\<close>

record resp =
  ok :: bool
  fresh :: addr
  heap_junk :: "double list"
  tmp_junk :: "double list"
  junk :: "nat \<Rightarrow> double list"

definition bind_result :: "error + 'a \<Rightarrow> ('a \<Rightarrow> error + 'b) \<Rightarrow> error + 'b" where
  "bind_result m f = (case m of Inl e \<Rightarrow> Inl e | Inr x \<Rightarrow> f x)"

section \<open>WidgetImpl\<close>

text \<open>The default argument of both constructors: fourteen \<open>A\<close>, eleven \<open>B\<close>.\<close>

definition default_name :: string where
  "default_name = ''AAAAAAAAAAAAAABBBBBBBBBBB''"

text \<open>
  \<open>WidgetImpl(int i, double b, double c, double d, string name)
     : i(i), b(b), c(c), d(d), name(name) {}\<close>

  The initialiser list names five of the six members. \<open>arr\<close> is default-initialised,
  which for an array of \<open>double\<close> writes nothing: it keeps what the storage held
  (the first argument).
\<close>

definition WidgetImpl_ctor ::
  "double list \<Rightarrow> cint \<Rightarrow> double \<Rightarrow> double \<Rightarrow> double \<Rightarrow> string \<Rightarrow> WidgetImpl" where
  "WidgetImpl_ctor g n x y z s = \<lparr>i = n, b = x, c = y, d = z, name = s, arr = g\<rparr>"

text \<open>The call \<open>WidgetImpl(n)\<close>: the other four parameters take their defaults.\<close>

definition WidgetImpl_of_int :: "double list \<Rightarrow> cint \<Rightarrow> WidgetImpl" where
  "WidgetImpl_of_int g n = WidgetImpl_ctor g n 0 0 0 default_name"

text \<open>
  \<open>WidgetImpl(const WidgetImpl& rhs)
     : i(rhs.i), b(rhs.b), c(rhs.c), d(rhs.d), name(rhs.name) {}\<close>
\<close>

definition WidgetImpl_copy :: "double list \<Rightarrow> WidgetImpl \<Rightarrow> WidgetImpl" where
  "WidgetImpl_copy g rhs =
     \<lparr>i = i rhs, b = b rhs, c = c rhs, d = d rhs, name = name rhs, arr = g\<rparr>"

text \<open>
  \<open>WidgetImpl(WidgetImpl&& rhs)
     : i(move(rhs.i)), b(move(rhs.b)), c(move(rhs.c)), d(move(rhs.d)),
       name(move(rhs.name)) {}\<close>

  Moving a scalar copies it; moving the string hands over its text. The result is the
  constructed object; \<open>rhs\<close> is left with an unspecified \<open>name\<close> and every caller in
  the program destroys it without reading it again.
\<close>

definition WidgetImpl_move :: "double list \<Rightarrow> WidgetImpl \<Rightarrow> WidgetImpl" where
  "WidgetImpl_move g rhs =
     \<lparr>i = i rhs, b = b rhs, c = c rhs, d = d rhs, name = name rhs, arr = g\<rparr>"

text \<open>
  \<open>WidgetImpl& operator= (const WidgetImpl& rhs)
     { i = rhs.i; b = rhs.b; c = rhs.c; d = rhs.d; name = rhs.name; return *this; }\<close>

  The first argument is \<open>*this\<close>; its \<open>arr\<close> is not assigned.
\<close>

definition WidgetImpl_assign :: "WidgetImpl \<Rightarrow> WidgetImpl \<Rightarrow> WidgetImpl" where
  "WidgetImpl_assign this rhs =
     this\<lparr>i := i rhs, b := b rhs, c := c rhs, d := d rhs, name := name rhs\<rparr>"

section \<open>unique_ptr and Widget\<close>

text \<open>
  \<open>make_unique<WidgetImpl>(n, x, y, z, s)\<close> is \<open>new WidgetImpl(n, x, y, z, s)\<close>: it
  throws when the allocation fails, and otherwise constructs the payload at the address
  the allocator returns.
\<close>

definition make_unique ::
  "resp \<Rightarrow> heap \<Rightarrow> cint \<Rightarrow> double \<Rightarrow> double \<Rightarrow> double \<Rightarrow> string \<Rightarrow> error + (addr option \<times> heap)" where
  "make_unique r h n x y z s =
     (if ok r
      then Inr (Some (fresh r), h(fresh r \<mapsto> WidgetImpl_ctor (heap_junk r) n x y z s))
      else Inl BadAlloc)"

text \<open>\<open>if (p) delete p;\<close>, what \<open>~unique_ptr\<close> and \<open>reset\<close> do with the pointer they held.\<close>

definition delete_ptr :: "heap \<Rightarrow> addr option \<Rightarrow> heap" where
  "delete_ptr h p = (case p of None \<Rightarrow> h | Some a \<Rightarrow> h(a := None))"

text \<open>
  \<open>unique_ptr(unique_ptr&& u)\<close> takes \<open>u.release()\<close>: the result is the pointer
  constructed and the pointer \<open>u\<close> holds afterwards.
\<close>

definition unique_ptr_move :: "addr option \<Rightarrow> addr option \<times> addr option" where
  "unique_ptr_move u = (u, None)"

text \<open>
  \<open>this = move(u)\<close> is \<open>reset(u.release())\<close>: the pointer held before is deleted.
  The result is the heap, the pointer \<open>this\<close> holds and the pointer \<open>u\<close> holds.
\<close>

definition unique_ptr_move_assign ::
  "heap \<Rightarrow> addr option \<Rightarrow> addr option \<Rightarrow> heap \<times> addr option \<times> addr option" where
  "unique_ptr_move_assign h this u = (delete_ptr h this, u, None)"

text \<open>\<open>p->member\<close>: reading through a pointer.\<close>

definition deref :: "heap \<Rightarrow> addr option \<Rightarrow> error + WidgetImpl" where
  "deref h p =
     (case p of
        None \<Rightarrow> Inl NullDeref
      | Some a \<Rightarrow> (case h a of None \<Rightarrow> Inl DanglingDeref | Some v \<Rightarrow> Inr v))"

text \<open>
  \<open>Widget(int i, double b, double c, double d, string name)
     : pimpl(make_unique<WidgetImpl>(i, b, c, d, name)) {}\<close>
\<close>

definition Widget_ctor ::
  "resp \<Rightarrow> heap \<Rightarrow> cint \<Rightarrow> double \<Rightarrow> double \<Rightarrow> double \<Rightarrow> string \<Rightarrow> error + (Widget \<times> heap)" where
  "Widget_ctor r h n x y z s =
     bind_result (make_unique r h n x y z s) (\<lambda>(p, h'). Inr (\<lparr>pimpl = p\<rparr>, h'))"

text \<open>The call \<open>Widget(n)\<close>.\<close>

definition Widget_of_int :: "resp \<Rightarrow> heap \<Rightarrow> cint \<Rightarrow> error + (Widget \<times> heap)" where
  "Widget_of_int r h n = Widget_ctor r h n 0 0 0 default_name"

text \<open>
  \<open>Widget(Widget&& rhs) : pimpl(move(rhs.pimpl)) {}\<close>

  The result is the heap afterwards, the \<open>Widget\<close> constructed and \<open>rhs\<close> afterwards.
\<close>

definition Widget_move :: "heap \<Rightarrow> Widget \<Rightarrow> heap \<times> Widget \<times> Widget" where
  "Widget_move h rhs =
     (case unique_ptr_move (pimpl rhs) of (p, u) \<Rightarrow> (h, \<lparr>pimpl = p\<rparr>, rhs\<lparr>pimpl := u\<rparr>))"

text \<open>
  \<open>Widget& operator= (const Widget& rhs)
     { pimpl = make_unique<WidgetImpl>(rhs.pimpl->i, rhs.pimpl->b, rhs.pimpl->c,
                                       rhs.pimpl->d, rhs.pimpl->name);
       return *this; }\<close>

  The arguments are read through \<open>rhs.pimpl\<close> first, with no test for null; then the
  new payload is allocated and constructed; then the move assignment of the
  \<open>unique_ptr\<close> deletes the payload \<open>*this\<close> held. The result is \<open>*this\<close> and the
  heap afterwards. \<open>rhs\<close> is a reference to const and is not written; when it is
  \<open>*this\<close> itself, it is the returned object afterwards.
\<close>

definition Widget_assign :: "resp \<Rightarrow> heap \<Rightarrow> Widget \<Rightarrow> Widget \<Rightarrow> error + (Widget \<times> heap)" where
  "Widget_assign r h this rhs =
     bind_result (deref h (pimpl rhs)) (\<lambda>v.
     bind_result (make_unique r h (i v) (b v) (c v) (d v) (name v)) (\<lambda>(p, h1).
       case unique_ptr_move_assign h1 (pimpl this) p of
         (h2, q, _) \<Rightarrow> Inr (this\<lparr>pimpl := q\<rparr>, h2)))"

text \<open>The implicit destructor \<open>~Widget()\<close> destroys \<open>pimpl\<close>.\<close>

definition Widget_dtor :: "heap \<Rightarrow> Widget \<Rightarrow> heap" where
  "Widget_dtor h w = delete_ptr h (pimpl w)"

section \<open>std::vector\<close>

text \<open>A default-constructed vector has no elements and no buffer.\<close>

definition empty_vec :: "'a vec" where
  "empty_vec = \<lparr>elems = [], capacity = 0\<rparr>"

text \<open>
  The capacity after a reallocation. The growth policy \<open>grow\<close> (doubling in libstdc++,
  one and a half in MSVC) is the library's; whatever it answers, the new buffer holds
  the old elements and the new one.
\<close>

definition grown :: "(nat \<Rightarrow> nat) \<Rightarrow> 'a vec \<Rightarrow> nat" where
  "grown grow v = max (grow (capacity v)) (Suc (length (elems v)))"

text \<open>\<open>v[k]\<close>; past the end the behaviour is undefined.\<close>

definition at :: "'a vec \<Rightarrow> nat \<Rightarrow> error + 'a" where
  "at v k = (if k < length (elems v) then Inr (elems v ! k) else Inl OutOfRange)"

subsection \<open>vector<WidgetImpl>\<close>

text \<open>
  \<open>vw.push_back(WidgetImpl&& x)\<close>. With room left, the new element is move-constructed
  in the first free slot. Without, a larger buffer is allocated, the new element is
  move-constructed in it, and every old element is constructed again in the new buffer:
  by the copy constructor, because the move constructor of \<open>WidgetImpl\<close> is not
  \<open>noexcept\<close> (the comment above it in the source says so); then the old elements
  are destroyed. \<open>g k\<close> is what slot \<open>k\<close> of the buffer written held before.
\<close>

definition push_back_vw ::
  "(nat \<Rightarrow> nat) \<Rightarrow> (nat \<Rightarrow> double list) \<Rightarrow> WidgetImpl vec \<Rightarrow> WidgetImpl \<Rightarrow> WidgetImpl vec" where
  "push_back_vw grow g v x =
     (if length (elems v) < capacity v
      then v\<lparr>elems := elems v @ [WidgetImpl_move (g (length (elems v))) x]\<rparr>
      else \<lparr>elems = map (\<lambda>k. WidgetImpl_copy (g k) (elems v ! k)) [0..<length (elems v)]
                      @ [WidgetImpl_move (g (length (elems v))) x],
            capacity = grown grow v\<rparr>)"

text \<open>The statement \<open>vw.push_back(WidgetImpl(n));\<close>.\<close>

definition append_vw :: "(nat \<Rightarrow> nat) \<Rightarrow> resp \<Rightarrow> WidgetImpl vec \<Rightarrow> cint \<Rightarrow> error + WidgetImpl vec" where
  "append_vw grow r v n =
     (if ok r
      then Inr (push_back_vw grow (junk r) v (WidgetImpl_of_int (tmp_junk r) n))
      else Inl BadAlloc)"

text \<open>
  The statement \<open>vw[j] = vw[k];\<close>: \<open>WidgetImpl::operator=\<close> on two elements. Assigning
  \<open>name\<close> may allocate.
\<close>

definition assign_vw :: "resp \<Rightarrow> WidgetImpl vec \<Rightarrow> nat \<Rightarrow> nat \<Rightarrow> error + WidgetImpl vec" where
  "assign_vw r v j k =
     bind_result (at v j) (\<lambda>this.
     bind_result (at v k) (\<lambda>rhs.
       if ok r then Inr (v\<lparr>elems := (elems v)[j := WidgetImpl_assign this rhs]\<rparr>)
       else Inl BadAlloc))"

text \<open>\<open>vw.clear()\<close>: the elements are destroyed, the buffer is kept.\<close>

definition clear_vw :: "WidgetImpl vec \<Rightarrow> WidgetImpl vec" where
  "clear_vw v = v\<lparr>elems := []\<rparr>"

text \<open>\<open>for (int i = 0; i < n; ++i) vw.push_back(WidgetImpl(i));\<close>, from the counter \<open>k\<close> on.\<close>

function appendN_vw ::
  "(nat \<Rightarrow> nat) \<Rightarrow> (cint \<Rightarrow> resp) \<Rightarrow> cint \<Rightarrow> cint \<Rightarrow> WidgetImpl vec \<Rightarrow> error + WidgetImpl vec" where
  "appendN_vw grow env k n v =
     (if k <s n
      then bind_result (append_vw grow (env k) v k) (appendN_vw grow env (k + 1) n)
      else Inr v)"
  by pat_completeness auto
termination
proof (relation "measure (\<lambda>(grow, env, k, n, v). nat (sint n - sint k))")
  fix grow :: "nat \<Rightarrow> nat" and env :: "cint \<Rightarrow> resp" and k n :: cint
    and v x :: "WidgetImpl vec"
  assume "k <s n"
  then show "((grow, env, k + 1, n, x), (grow, env, k, n, v))
      \<in> measure (\<lambda>(grow, env, k, n, v). nat (sint n - sint k))"
    using sint_lt [of n] sint_ge [of k]
    by (simp add: word_sless_alt sint_word_ariths signed_take_bit_int_eq_self)
qed simp

subsection \<open>vector<Widget>\<close>

text \<open>
  Moving the old elements into a larger buffer. \<open>Widget\<close> declares a move constructor
  and no copy constructor, so it cannot be copied and the vector moves every element,
  although the move constructor is not \<open>noexcept\<close>; then the old elements, now
  holding null, are destroyed.
\<close>

fun relocate :: "heap \<Rightarrow> Widget list \<Rightarrow> heap \<times> Widget list" where
  "relocate h [] = (h, [])"
| "relocate h (e # es) =
     (case Widget_move h e of (h1, new, e') \<Rightarrow>
        (case relocate h1 es of (h2, news) \<Rightarrow> (Widget_dtor h2 e', new # news)))"

text \<open>
  \<open>vpimpl.push_back(Widget&& x)\<close>: the heap afterwards, the vector afterwards and
  \<open>x\<close> afterwards.
\<close>

definition push_back_vp ::
  "(nat \<Rightarrow> nat) \<Rightarrow> heap \<Rightarrow> Widget vec \<Rightarrow> Widget \<Rightarrow> heap \<times> Widget vec \<times> Widget" where
  "push_back_vp grow h v x =
     (case Widget_move h x of (h1, new, x') \<Rightarrow>
        if length (elems v) < capacity v
        then (h1, v\<lparr>elems := elems v @ [new]\<rparr>, x')
        else (case relocate h1 (elems v) of (h2, es) \<Rightarrow>
                (h2, \<lparr>elems = es @ [new], capacity = grown grow v\<rparr>, x')))"

text \<open>
  The statement \<open>vpimpl.push_back(Widget(n));\<close>: the temporary is constructed, moved
  from, and destroyed at the end of the statement.
\<close>

definition append_vp ::
  "(nat \<Rightarrow> nat) \<Rightarrow> resp \<Rightarrow> heap \<times> Widget vec \<Rightarrow> cint \<Rightarrow> error + (heap \<times> Widget vec)" where
  "append_vp grow r s n =
     (case s of (h, v) \<Rightarrow>
        bind_result (Widget_of_int r h n) (\<lambda>(tmp, h1).
          case push_back_vp grow h1 v tmp of (h2, v', tmp') \<Rightarrow>
            Inr (Widget_dtor h2 tmp', v')))"

text \<open>The statement \<open>vpimpl[j] = vpimpl[k];\<close>: \<open>Widget::operator=\<close> on two elements.\<close>

definition assign_vp ::
  "resp \<Rightarrow> heap \<times> Widget vec \<Rightarrow> nat \<Rightarrow> nat \<Rightarrow> error + (heap \<times> Widget vec)" where
  "assign_vp r s j k =
     (case s of (h, v) \<Rightarrow>
        bind_result (at v j) (\<lambda>this.
        bind_result (at v k) (\<lambda>rhs.
        bind_result (Widget_assign r h this rhs) (\<lambda>(this', h').
          Inr (h', v\<lparr>elems := (elems v)[j := this']\<rparr>)))))"

text \<open>\<open>vpimpl.clear()\<close>: every element is destroyed, which releases its payload.\<close>

definition clear_vp :: "heap \<times> Widget vec \<Rightarrow> heap \<times> Widget vec" where
  "clear_vp s = (case s of (h, v) \<Rightarrow> (fold (\<lambda>w h'. Widget_dtor h' w) (elems v) h, v\<lparr>elems := []\<rparr>))"

text \<open>\<open>for (int i = 0; i < n; ++i) vpimpl.push_back(Widget(i));\<close>, from the counter \<open>k\<close> on.\<close>

function appendN_vp ::
  "(nat \<Rightarrow> nat) \<Rightarrow> (cint \<Rightarrow> resp) \<Rightarrow> cint \<Rightarrow> cint \<Rightarrow> heap \<times> Widget vec
     \<Rightarrow> error + (heap \<times> Widget vec)" where
  "appendN_vp grow env k n s =
     (if k <s n
      then bind_result (append_vp grow (env k) s k) (appendN_vp grow env (k + 1) n)
      else Inr s)"
  by pat_completeness auto
termination
proof (relation "measure (\<lambda>(grow, env, k, n, s). nat (sint n - sint k))")
  fix grow :: "nat \<Rightarrow> nat" and env :: "cint \<Rightarrow> resp" and k n :: cint
    and s x :: "heap \<times> Widget vec"
  assume "k <s n"
  then show "((grow, env, k + 1, n, x), (grow, env, k, n, s))
      \<in> measure (\<lambda>(grow, env, k, n, s). nat (sint n - sint k))"
    using sint_lt [of n] sint_ge [of k]
    by (simp add: word_sless_alt sint_word_ariths signed_take_bit_int_eq_self)
qed simp

section \<open>main\<close>

text \<open>
  Everything \<open>main\<close> takes from outside the program: the growth policy of the vectors,
  the answers of the environment to the eight statements before the timed loops and to
  every iteration of the two loops, the readings of \<open>system_clock::now()\<close> in the order
  of the calls (in ticks), and the text \<open>operator<<\<close> writes for
  \<open>duration<double>(end - start).count()\<close> given the difference in ticks (the
  conversion to a double and its formatting are the library's).
\<close>

record world =
  grow_policy :: "nat \<Rightarrow> nat"
  setup_env :: "nat \<Rightarrow> resp"
  loop1_env :: "cint \<Rightarrow> resp"
  loop2_env :: "cint \<Rightarrow> resp"
  now :: "nat \<Rightarrow> int"
  show_seconds :: "int \<Rightarrow> string"

text \<open>
  Lines 110 to 114: three records appended to an empty \<open>vector<WidgetImpl>\<close>.
  \<open>main\<close> runs it with 1, 2, 3.
\<close>

definition three_vw ::
  "(nat \<Rightarrow> nat) \<Rightarrow> (nat \<Rightarrow> resp) \<Rightarrow> cint \<Rightarrow> cint \<Rightarrow> cint \<Rightarrow> error + WidgetImpl vec" where
  "three_vw grow env n0 n1 n2 =
     bind_result (append_vw grow (env 0) empty_vec n0) (\<lambda>v1.
     bind_result (append_vw grow (env 1) v1 n1) (\<lambda>v2.
       append_vw grow (env 2) v2 n2))"

text \<open>Lines 110 to 117: the same, then \<open>vw[0] = vw[1]\<close>.\<close>

definition scenario_vw ::
  "(nat \<Rightarrow> nat) \<Rightarrow> (nat \<Rightarrow> resp) \<Rightarrow> cint \<Rightarrow> cint \<Rightarrow> cint \<Rightarrow> error + WidgetImpl vec" where
  "scenario_vw grow env n0 n1 n2 =
     bind_result (three_vw grow env n0 n1 n2) (\<lambda>v3. assign_vw (env 3) v3 0 1)"

text \<open>Lines 120 to 127: the same on an empty \<open>vector<Widget>\<close> and an empty heap.\<close>

definition scenario_vp ::
  "(nat \<Rightarrow> nat) \<Rightarrow> (nat \<Rightarrow> resp) \<Rightarrow> cint \<Rightarrow> cint \<Rightarrow> cint \<Rightarrow> error + (heap \<times> Widget vec)" where
  "scenario_vp grow env n0 n1 n2 =
     bind_result (append_vp grow (env 4) (Map.empty, empty_vec) n0) (\<lambda>s1.
     bind_result (append_vp grow (env 5) s1 n1) (\<lambda>s2.
     bind_result (append_vp grow (env 6) s2 n2) (\<lambda>s3.
       assign_vp (env 7) s3 0 1)))"

text \<open>The line \<open>cout << duration<double>(end - start).count() << " \<dots>" << endl;\<close>: the
  literal is a space and the three bytes of the Korean word for seconds.\<close>

definition report :: "world \<Rightarrow> int \<Rightarrow> int \<Rightarrow> string" where
  "report w start finish =
     show_seconds w (finish - start) @ [CHR 0x20, CHR 0xEC, CHR 0xB4, CHR 0x88]"

text \<open>
  \<open>int main(int argc, char* argv[])\<close>: the lines written to \<open>cout\<close>, and how the run
  ends: with the value returned, or with an exception that leaves \<open>main\<close>. The first
  line is written before the second loop starts. The two vectors are destroyed after
  the last line is written, which nothing observes.
\<close>

definition main :: "cint \<Rightarrow> string list \<Rightarrow> world \<Rightarrow> string list \<times> (error + cint)" where
  "main argc argv w =
     (case bind_result (scenario_vw (grow_policy w) (setup_env w) 1 2 3) (\<lambda>vw.
           bind_result (scenario_vp (grow_policy w) (setup_env w) 1 2 3) (\<lambda>vpimpl.
             Inr (clear_vw vw, clear_vp vpimpl))) of
        Inl e \<Rightarrow> ([], Inl e)
      | Inr (vw, vpimpl) \<Rightarrow>
          (case appendN_vw (grow_policy w) (loop1_env w) 0 3000000 vw of
             Inl e \<Rightarrow> ([], Inl e)
           | Inr vw' \<Rightarrow>
               (case appendN_vp (grow_policy w) (loop2_env w) 0 3000000 vpimpl of
                  Inl e \<Rightarrow> ([report w (now w 0) (now w 1)], Inl e)
                | Inr vpimpl' \<Rightarrow>
                    ([report w (now w 0) (now w 1), report w (now w 2) (now w 3)],
                     Inr 0))))"

section \<open>Ownership\<close>

text \<open>
  The payloads a collection of \<open>Widget\<close> objects owns: the non-null \<open>pimpl\<close>s, one
  entry per object.
\<close>

fun owned :: "Widget list \<Rightarrow> addr list" where
  "owned [] = []"
| "owned (w # ws) = (case pimpl w of None \<Rightarrow> owned ws | Some a \<Rightarrow> a # owned ws)"

text \<open>
  The invariant of \<open>Widget\<close>, over the heap and all the \<open>Widget\<close> objects alive: every
  non-null \<open>pimpl\<close> points to a constructed payload on the heap, and no payload is owned
  twice.
\<close>

definition Widget_inv :: "heap \<Rightarrow> Widget list \<Rightarrow> bool" where
  "Widget_inv h ws = (list_all (\<lambda>a. h a \<noteq> None) (owned ws) \<and> distinct (owned ws))"

text \<open>
  The invariant at rest, outside a transfer of ownership: moreover no \<open>Widget\<close> alive
  holds null. A null \<open>pimpl\<close> is the state of the source of a move construction, from
  the move until the source is destroyed; \<open>Widget_inv\<close> alone is what holds in between.
\<close>

definition Widget_at_rest :: "heap \<Rightarrow> Widget list \<Rightarrow> bool" where
  "Widget_at_rest h ws = (list_all (\<lambda>w. pimpl w \<noteq> None) ws \<and> Widget_inv h ws)"

section \<open>Example environments\<close>

text \<open>
  An environment in which no allocation fails, the \<open>k\<close>-th statement gets the heap
  address \<open>k\<close>, heap storage \<open>k\<close> held ten times the pattern \<open>k\<close>, slot \<open>k\<close> of a
  vector buffer held ten times the pattern \<open>k\<close>, and a temporary held zeros.
\<close>

definition example_resp :: "nat \<Rightarrow> resp" where
  "example_resp k =
     \<lparr>ok = True, fresh = k, heap_junk = replicate 10 (of_nat k),
      tmp_junk = replicate 10 0, junk = (\<lambda>slot. replicate 10 (of_nat slot))\<rparr>"

text \<open>The same for a loop, whose statements are numbered by the counter.\<close>

definition example_loop_env :: "cint \<Rightarrow> resp" where
  "example_loop_env k = example_resp (unat k)"

text \<open>The growth policy of libstdc++: the capacity doubles.\<close>

definition doubling :: "nat \<Rightarrow> nat" where
  "doubling n = 2 * n"

text \<open>
  A world with that environment, in which the first loop takes 1000 ticks and the second
  5000, and a formatter that tells the two durations apart.
\<close>

definition example_world :: world where
  "example_world =
     \<lparr>grow_policy = doubling, setup_env = example_resp,
      loop1_env = example_loop_env, loop2_env = example_loop_env,
      now = (\<lambda>k. 1000 * int k * int k),
      show_seconds = (\<lambda>t. if t = 1000 then ''1e-06'' else if t = 5000 then ''5e-06'' else ''?'')\<rparr>"

text \<open>
  A heap with two payloads, as \<open>Widget(5)\<close> and \<open>Widget(6)\<close> leave them when the
  storage at address 0 held zeros and the storage at address 1 held ones.
\<close>

definition example_heap :: heap where
  "example_heap =
     [0 \<mapsto> WidgetImpl_of_int (replicate 10 0) 5, 1 \<mapsto> WidgetImpl_of_int (replicate 10 1) 6]"

section \<open>Vocabulary of the properties\<close>

text \<open>
  The five members of a \<open>WidgetImpl\<close> that its constructors and its assignment
  transfer: all but \<open>arr\<close>.
\<close>

definition fields :: "WidgetImpl \<Rightarrow> cint \<times> double \<times> double \<times> double \<times> string" where
  "fields v = (i v, b v, c v, d v, name v)"

text \<open>The counters \<open>k, k + 1, \<dots>\<close> of the iterations a loop from \<open>k\<close> to \<open>n\<close> runs.\<close>

definition counters :: "cint \<Rightarrow> cint \<Rightarrow> cint list" where
  "counters k n = map (\<lambda>j. k + of_nat j) [0..<nat (sint n - sint k)]"

section \<open>Basic facts\<close>

declare appendN_vw.simps [simp del] appendN_vp.simps [simp del]

lemma bind_result_simps [simp]:
  "bind_result (Inl e) f = Inl e"
  "bind_result (Inr x) f = f x"
  by (simp_all add: bind_result_def)

lemma WidgetImpl_ctor_fields:
  "WidgetImpl_ctor g (i v) (b v) (c v) (d v) (name v) = v\<lparr>arr := g\<rparr>"
  by (cases v) (simp add: WidgetImpl_ctor_def)

text \<open>
  \<open>Widget::operator=\<close> in one piece: the new payload carries the five members read
  from the source and the array the new storage held.
\<close>

lemma Widget_assign_eq:
  "Widget_assign r h this rhs =
     (case pimpl rhs of
        None \<Rightarrow> Inl NullDeref
      | Some a \<Rightarrow>
          (case h a of
             None \<Rightarrow> Inl DanglingDeref
           | Some v \<Rightarrow>
               if ok r
               then Inr (\<lparr>pimpl = Some (fresh r)\<rparr>,
                         delete_ptr (h(fresh r \<mapsto> v\<lparr>arr := heap_junk r\<rparr>)) (pimpl this))
               else Inl BadAlloc))"
  by (simp add: Widget_assign_def deref_def make_unique_def unique_ptr_move_assign_def
      WidgetImpl_ctor_fields split: option.splits)

lemma Widget_dtor_null [simp]: "Widget_dtor h (w\<lparr>pimpl := None\<rparr>) = h"
  by (simp add: Widget_dtor_def delete_ptr_def)

lemma Widget_move_eq: "Widget_move h w = (h, w, w\<lparr>pimpl := None\<rparr>)"
  by (cases w) (simp add: Widget_move_def unique_ptr_move_def)

lemma relocate_eq: "relocate h es = (h, es)"
  by (induction es) (simp_all add: Widget_move_eq)

section \<open>Construction\<close>

text \<open>
  C7, as amended. For every integer \<open>n\<close>, \<open>WidgetImpl(n)\<close> is a record whose integer
  member is \<open>n\<close>, whose three doubles are \<open>0.0\<close> and whose text is the default string,
  and \<open>Widget(n)\<close> owns such a record at the address the allocator returned (or throws
  when the allocation fails). In both, the array of ten doubles is not written: it
  holds what its storage held before, there is no default for it.
\<close>

theorem construct_from_int:
  "WidgetImpl_of_int g n =
     \<lparr>i = n, b = 0, c = 0, d = 0, name = ''AAAAAAAAAAAAAABBBBBBBBBBB'', arr = g\<rparr>
   \<and> Widget_of_int r h n =
     (if ok r
      then Inr (\<lparr>pimpl = Some (fresh r)\<rparr>,
                h(fresh r \<mapsto>
                    \<lparr>i = n, b = 0, c = 0, d = 0, name = ''AAAAAAAAAAAAAABBBBBBBBBBB'',
                     arr = heap_junk r\<rparr>))
      else Inl BadAlloc)"
  by (simp add: WidgetImpl_of_int_def Widget_of_int_def Widget_ctor_def make_unique_def
      WidgetImpl_ctor_def default_name_def)

text \<open>
  C7 as stated fails on the array: two records constructed from the same integer, in
  storage that held zeros and in storage that held ones, have different arrays, so the
  array is not filled with a fixed default.
\<close>

theorem construct_array_not_default:
  "arr (WidgetImpl_of_int (replicate 10 0) 5) = replicate 10 0
   \<and> arr (WidgetImpl_of_int (replicate 10 1) 5) = replicate 10 1
   \<and> arr (WidgetImpl_of_int (replicate 10 0) 5) \<noteq> arr (WidgetImpl_of_int (replicate 10 1) 5)"
  by (simp add: WidgetImpl_of_int_def WidgetImpl_ctor_def)

section \<open>Moving a Widget\<close>

text \<open>
  C2. Move-constructing a \<open>Widget\<close> from \<open>rhs\<close> leaves the heap as it was (nothing is
  allocated, released or copied), the new \<open>Widget\<close> holds the pointer \<open>rhs\<close> held, so it
  reads the same payload at the same address, and \<open>rhs\<close> holds null. So when a
  \<open>vector<Widget>\<close> grows, the elements of the new buffer hold the pointers the old
  elements held and the heap is as it was.
\<close>

theorem Widget_move_transfers_ownership:
  "(case Widget_move h rhs of
      (h', new, rhs') \<Rightarrow>
        h' = h \<and> pimpl new = pimpl rhs \<and> pimpl rhs' = None
        \<and> deref h' (pimpl new) = deref h (pimpl rhs))
   \<and> relocate h es = (h, es)"
  by (simp add: Widget_move_def unique_ptr_move_def relocate_eq)

section \<open>Copy-assigning a Widget\<close>

lemma Widget_inv_pair:
  "Widget_inv h [this, rhs] \<Longrightarrow> pimpl rhs = Some a \<Longrightarrow>
     h a \<noteq> None \<and> pimpl this \<noteq> Some a \<and> (\<forall>p. pimpl this = Some p \<longrightarrow> h p \<noteq> None)"
  by (auto simp: Widget_inv_def split: option.splits)

text \<open>
  C1, as amended. Let \<open>this\<close> and \<open>rhs\<close> be two \<open>Widget\<close>s that satisfy the invariant,
  \<open>rhs\<close> owning the payload \<open>v\<close> at address \<open>a\<close>, and let the allocation succeed and
  return storage that is not in use. Then \<open>this = rhs\<close> leaves \<open>this\<close> owning a new
  payload at an address different from \<open>a\<close>; the new payload has the integer, the three
  doubles and the text of \<open>v\<close>; its array is not copied from \<open>v\<close>, it is what the new
  storage held; and the payload at \<open>a\<close> is still \<open>v\<close>.
\<close>

theorem Widget_assign_deep_copy:
  assumes "Widget_inv h [this, rhs]" and "pimpl rhs = Some a"
    and "ok r" and "h (fresh r) = None"
  shows "\<exists>v h'. h a = Some v
         \<and> Widget_assign r h this rhs = Inr (\<lparr>pimpl = Some (fresh r)\<rparr>, h')
         \<and> fresh r \<noteq> a
         \<and> h' (fresh r) = Some (v\<lparr>arr := heap_junk r\<rparr>)
         \<and> h' a = Some v"
proof -
  from Widget_inv_pair [OF assms(1,2)]
  obtain v where v: "h a = Some v" and ne: "pimpl this \<noteq> Some a"
    and live: "\<forall>p. pimpl this = Some p \<longrightarrow> h p \<noteq> None"
    by auto
  from v assms(4) have fa: "fresh r \<noteq> a" by auto
  from live assms(4) have nf: "pimpl this \<noteq> Some (fresh r)" by auto
  show ?thesis
    using v fa nf ne assms(2,3)
    by (cases "pimpl this") (auto simp: Widget_assign_eq delete_ptr_def)
qed

theorem Widget_assign_deep_copy_witness:
  "\<exists>v h'. example_heap 0 = Some v
     \<and> Widget_assign (example_resp 2) example_heap \<lparr>pimpl = Some 1\<rparr> \<lparr>pimpl = Some 0\<rparr>
         = Inr (\<lparr>pimpl = Some 2\<rparr>, h')
     \<and> h' 2 = Some (v\<lparr>arr := replicate 10 2\<rparr>)
     \<and> h' 0 = Some v"
  using Widget_assign_deep_copy
    [of example_heap "\<lparr>pimpl = Some 1\<rparr>" "\<lparr>pimpl = Some 0\<rparr>" 0 "example_resp 2"]
  by (simp add: Widget_inv_def example_heap_def example_resp_def)

text \<open>
  C1 as stated fails on the array. The source owns, at address 0, a payload whose array
  holds zeros; the destination owns the payload at address 1; the new storage, at
  address 2, held twos. After the assignment the copy at address 2 has the source's
  integer, doubles and text, and an array of twos, not the source's array of zeros.
\<close>

theorem Widget_assign_array_not_copied:
  "Widget_assign (example_resp 2) example_heap \<lparr>pimpl = Some 1\<rparr> \<lparr>pimpl = Some 0\<rparr>
     = Inr (\<lparr>pimpl = Some 2\<rparr>,
            [0 \<mapsto> \<lparr>i = 5, b = 0, c = 0, d = 0, name = default_name, arr = replicate 10 0\<rparr>,
             2 \<mapsto> \<lparr>i = 5, b = 0, c = 0, d = 0, name = default_name, arr = replicate 10 2\<rparr>])
   \<and> replicate 10 (2 :: double) \<noteq> replicate 10 0"
  by (simp add: Widget_assign_eq example_heap_def example_resp_def delete_ptr_def
      WidgetImpl_of_int_def WidgetImpl_ctor_def fun_upd_twist)

text \<open>
  C10. \<open>Widget::operator=\<close> reads through \<open>rhs.pimpl\<close> without testing it. When
  \<open>rhs\<close> holds null the read is the undefined behaviour \<open>NullDeref\<close>, whatever the
  allocator would answer. When \<open>rhs\<close> owns a payload alive on the heap, neither
  \<open>NullDeref\<close> nor \<open>DanglingDeref\<close> can be the outcome, and the assignment completes
  whenever the allocation succeeds.
\<close>

theorem Widget_assign_deref:
  "(pimpl rhs = None \<longrightarrow> Widget_assign r h this rhs = Inl NullDeref) \<and>
   (\<forall>a v. pimpl rhs = Some a \<and> h a = Some v \<longrightarrow>
      Widget_assign r h this rhs \<noteq> Inl NullDeref \<and>
      Widget_assign r h this rhs \<noteq> Inl DanglingDeref \<and>
      (ok r \<longrightarrow> (\<exists>res. Widget_assign r h this rhs = Inr res)))"
  by (auto simp: Widget_assign_eq)

theorem Widget_assign_deref_witness:
  "Widget_assign (example_resp 2) example_heap \<lparr>pimpl = Some 1\<rparr> \<lparr>pimpl = None\<rparr>
     = Inl NullDeref
   \<and> Widget_assign (example_resp 2) example_heap \<lparr>pimpl = Some 1\<rparr> \<lparr>pimpl = Some 0\<rparr>
       \<noteq> Inl NullDeref
   \<and> (\<exists>res. Widget_assign (example_resp 2) example_heap \<lparr>pimpl = Some 1\<rparr> \<lparr>pimpl = Some 0\<rparr>
         = Inr res)"
  using Widget_assign_deref
    [of "\<lparr>pimpl = None\<rparr>" "example_resp 2" example_heap "\<lparr>pimpl = Some 1\<rparr>"]
    Widget_assign_deref
    [of "\<lparr>pimpl = Some 0\<rparr>" "example_resp 2" example_heap "\<lparr>pimpl = Some 1\<rparr>"]
  by (simp add: example_heap_def example_resp_def)

section \<open>The invariant of Widget\<close>

lemma Widget_inv_Cons:
  "Widget_inv h (w # ws) =
     (case pimpl w of
        None \<Rightarrow> Widget_inv h ws
      | Some a \<Rightarrow> h a \<noteq> None \<and> a \<notin> set (owned ws) \<and> Widget_inv h ws)"
  by (auto simp: Widget_inv_def split: option.splits)

lemma Widget_inv_live: "Widget_inv h ws \<Longrightarrow> a \<in> set (owned ws) \<Longrightarrow> h a \<noteq> None"
  by (simp add: Widget_inv_def list_all_iff)

lemma Widget_inv_alloc: "Widget_inv h ws \<Longrightarrow> Widget_inv (h(a \<mapsto> v)) ws"
  by (simp add: Widget_inv_def list_all_iff)

lemma Widget_inv_free:
  "Widget_inv h ws \<Longrightarrow> a \<notin> set (owned ws) \<Longrightarrow> Widget_inv (h(a := None)) ws"
  by (auto simp: Widget_inv_def list_all_iff)

text \<open>Construction: the new \<open>Widget\<close> joins the others.\<close>

lemma inv_ctor:
  assumes "Widget_inv h ws" and "h (fresh r) = None"
    and "Widget_ctor r h n x y z s = Inr (w, h')"
  shows "Widget_inv h' (w # ws)"
proof -
  from assms(3) have w: "w = \<lparr>pimpl = Some (fresh r)\<rparr>"
    and h': "h' = h(fresh r \<mapsto> WidgetImpl_ctor (heap_junk r) n x y z s)"
    by (auto simp: Widget_ctor_def make_unique_def split: if_splits)
  from assms(1,2) have "fresh r \<notin> set (owned ws)"
    using Widget_inv_live by blast
  then show ?thesis
    using assms(1) by (simp add: w h' Widget_inv_Cons Widget_inv_alloc)
qed

text \<open>Move construction: the new \<open>Widget\<close> joins, the source stays, holding null.\<close>

lemma inv_move:
  assumes "Widget_inv h (rhs # ws)" and "Widget_move h rhs = (h', new, rhs')"
  shows "Widget_inv h' (new # rhs' # ws)"
  using assms
  by (auto simp: Widget_move_def unique_ptr_move_def Widget_inv_Cons split: option.splits)

text \<open>Destruction: the \<open>Widget\<close> leaves and its payload is released.\<close>

lemma inv_dtor:
  assumes "Widget_inv h (w # ws)"
  shows "Widget_inv (Widget_dtor h w) ws"
  using assms
  by (auto simp: Widget_dtor_def delete_ptr_def Widget_inv_Cons Widget_inv_free
      split: option.splits)

text \<open>Copy assignment between two objects.\<close>

lemma inv_assign:
  assumes "Widget_inv h (this # rhs # ws)" and "h (fresh r) = None"
    and "Widget_assign r h this rhs = Inr (this', h')"
  shows "Widget_inv h' (this' # rhs # ws)"
proof -
  from assms(3) obtain a v where a: "pimpl rhs = Some a" and v: "h a = Some v"
    and this': "this' = \<lparr>pimpl = Some (fresh r)\<rparr>"
    and h': "h' = delete_ptr (h(fresh r \<mapsto> v\<lparr>arr := heap_junk r\<rparr>)) (pimpl this)"
    by (auto simp: Widget_assign_eq split: option.splits if_splits)
  have rest: "Widget_inv h (rhs # ws)"
    using assms(1) by (auto simp: Widget_inv_Cons [of h this] split: option.splits)
  have nf: "fresh r \<notin> set (owned (rhs # ws))"
    using Widget_inv_live [OF rest, of "fresh r"] assms(2) by blast
  show ?thesis
  proof (cases "pimpl this")
    case None
    then show ?thesis
      using nf rest
      by (auto simp: this' h' delete_ptr_def Widget_inv_alloc
          Widget_inv_Cons [of _ "\<lparr>pimpl = Some (fresh r)\<rparr>"])
  next
    case (Some p)
    with assms(1) have p: "p \<notin> set (owned (rhs # ws))" "h p \<noteq> None"
      by (auto simp: Widget_inv_Cons [of h this])
    with assms(2) have "p \<noteq> fresh r" by auto
    then show ?thesis
      using nf rest p Some
      by (auto simp: this' h' delete_ptr_def Widget_inv_alloc Widget_inv_free
          Widget_inv_Cons [of _ "\<lparr>pimpl = Some (fresh r)\<rparr>"])
  qed
qed

text \<open>Copy assignment of an object to itself: \<open>rhs\<close> is \<open>*this\<close>.\<close>

lemma inv_self_assign:
  assumes "Widget_inv h (this # ws)" and "h (fresh r) = None"
    and "Widget_assign r h this this = Inr (this', h')"
  shows "Widget_inv h' (this' # ws)"
proof -
  from assms(3) obtain a v where a: "pimpl this = Some a" and v: "h a = Some v"
    and this': "this' = \<lparr>pimpl = Some (fresh r)\<rparr>"
    and h': "h' = delete_ptr (h(fresh r \<mapsto> v\<lparr>arr := heap_junk r\<rparr>)) (pimpl this)"
    by (auto simp: Widget_assign_eq split: option.splits if_splits)
  from assms(1) a have rest: "Widget_inv h ws" and na: "a \<notin> set (owned ws)"
    by (auto simp: Widget_inv_Cons)
  have nf: "fresh r \<notin> set (owned ws)"
    using Widget_inv_live [OF rest] assms(2) by blast
  from v assms(2) have "a \<noteq> fresh r" by auto
  then show ?thesis
    using rest na nf a
    by (auto simp: this' h' delete_ptr_def Widget_inv_Cons Widget_inv_alloc Widget_inv_free)
qed

section \<open>The loops\<close>

lemma appendN_vw_step:
  "k <s n \<Longrightarrow> appendN_vw grow env k n v =
     bind_result (append_vw grow (env k) v k) (appendN_vw grow env (k + 1) n)"
  and appendN_vw_stop: "\<not> k <s n \<Longrightarrow> appendN_vw grow env k n v = Inr v"
  by (subst appendN_vw.simps, simp)+

lemma appendN_vp_step:
  "k <s n \<Longrightarrow> appendN_vp grow env k n s =
     bind_result (append_vp grow (env k) s k) (appendN_vp grow env (k + 1) n)"
  and appendN_vp_stop: "\<not> k <s n \<Longrightarrow> appendN_vp grow env k n s = Inr s"
  by (subst appendN_vp.simps, simp)+

lemma sint_succ: "k <s (n :: cint) \<Longrightarrow> sint (k + 1) = sint k + 1"
  using sint_lt [of n] sint_ge [of k]
  by (simp add: word_sless_alt sint_word_ariths signed_take_bit_int_eq_self)

lemma counters_step: "k <s n \<Longrightarrow> counters k n = k # counters (k + 1) n"
proof -
  assume kn: "k <s n"
  then have lt: "sint k < sint n" by (simp add: word_sless_alt)
  then obtain m where m: "nat (sint n - sint k) = Suc m" and m': "nat (sint n - sint (k + 1)) = m"
    using sint_succ [OF kn] by (cases "nat (sint n - sint k)") auto
  have "[0..<Suc m] = 0 # map Suc [0..<m]"
    by (simp add: upt_conv_Cons map_Suc_upt del: upt_Suc)
  then show ?thesis
    by (simp add: counters_def m m' o_def add.assoc del: upt_Suc)
qed

lemma counters_done: "\<not> k <s n \<Longrightarrow> counters k n = []"
  by (simp add: counters_def word_sless_alt)

lemma fields_copy [simp]: "fields (WidgetImpl_copy g x) = fields x"
  and fields_move [simp]: "fields (WidgetImpl_move g x) = fields x"
  and fields_of_int [simp]: "fields (WidgetImpl_of_int g n) = (n, 0, 0, 0, default_name)"
  by (simp_all add: fields_def WidgetImpl_copy_def WidgetImpl_move_def WidgetImpl_of_int_def
      WidgetImpl_ctor_def)

lemma map_fields_copies:
  "map fields (map (\<lambda>k. WidgetImpl_copy (g k) (xs ! k)) [0..<length xs]) = map fields xs"
proof -
  have "map fields (map (\<lambda>k. WidgetImpl_copy (g k) (xs ! k)) [0..<length xs])
      = map fields (map ((!) xs) [0..<length xs])"
    by simp
  then show ?thesis by (simp only: map_nth)
qed

lemma push_back_vw_fields:
  "map fields (elems (push_back_vw grow g v x)) = map fields (elems v) @ [fields x]"
  by (simp add: push_back_vw_def map_fields_copies del: map_map)

lemma append_vw_ok:
  "ok r \<Longrightarrow> \<exists>v'. append_vw grow r v n = Inr v'
     \<and> map fields (elems v') = map fields (elems v) @ [(n, 0, 0, 0, default_name)]"
  by (simp add: append_vw_def push_back_vw_fields)

lemma appendN_vw_ok:
  "(\<forall>j. k \<le>s j \<and> j <s n \<longrightarrow> ok (env j)) \<Longrightarrow>
   \<exists>v'. appendN_vw grow env k n v = Inr v'
     \<and> map fields (elems v') = map fields (elems v) @ map (\<lambda>j. (j, 0, 0, 0, default_name)) (counters k n)"
proof (induction grow env k n v rule: appendN_vw.induct)
  case (1 grow env k n v)
  show ?case
  proof (cases "k <s n")
    case False
    then show ?thesis by (simp add: counters_done appendN_vw_stop)
  next
    case True
    with "1.prems" have "ok (env k)" by (simp add: word_sle_eq)
    from append_vw_ok [OF this, of grow v k]
    obtain v1 where v1: "append_vw grow (env k) v k = Inr v1"
      and f1: "map fields (elems v1) = map fields (elems v) @ [(k, 0, 0, 0, default_name)]"
      by blast
    have "\<forall>j. k + 1 \<le>s j \<and> j <s n \<longrightarrow> ok (env j)"
      using "1.prems" sint_succ [OF True] by (simp add: word_sle_eq)
    from "1.IH" [OF True this, of v1]
    obtain v' where "appendN_vw grow env (k + 1) n v1 = Inr v'"
      and "map fields (elems v') = map fields (elems v1)
             @ map (\<lambda>j. (j, 0, 0, 0, default_name)) (counters (k + 1) n)"
      by blast
    then show ?thesis
      using True v1 f1 by (simp add: counters_step appendN_vw_step)
  qed
qed

lemma sint_of_nat_small: "N < 2 ^ 31 \<Longrightarrow> sint (of_nat N :: cint) = int N"
  by (simp add: signed_of_nat signed_take_bit_int_eq_self)

lemma counters_from_0: "N < 2 ^ 31 \<Longrightarrow> counters 0 (of_nat N) = map of_nat [0..<N]"
  by (simp add: counters_def sint_of_nat_small)

lemma push_back_vp_eq:
  "push_back_vp grow h v x =
     (h, \<lparr>elems = elems v @ [x],
          capacity = (if length (elems v) < capacity v then capacity v else grown grow v)\<rparr>,
      x\<lparr>pimpl := None\<rparr>)"
  by (cases v) (simp add: push_back_vp_def Widget_move_eq relocate_eq)

lemma append_vp_eq:
  "append_vp grow r (h, v) n =
     (if ok r
      then Inr (h(fresh r \<mapsto> WidgetImpl_of_int (heap_junk r) n),
                \<lparr>elems = elems v @ [\<lparr>pimpl = Some (fresh r)\<rparr>],
                 capacity = (if length (elems v) < capacity v then capacity v else grown grow v)\<rparr>)
      else Inl BadAlloc)"
  by (simp add: append_vp_def Widget_of_int_def Widget_ctor_def make_unique_def push_back_vp_eq
      WidgetImpl_of_int_def)

lemma appendN_vp_ok:
  "(\<forall>j. k \<le>s j \<and> j <s n \<longrightarrow> ok (env j)) \<Longrightarrow>
   \<exists>s'. appendN_vp grow env k n s = Inr s'
     \<and> length (elems (snd s')) = length (elems (snd s)) + length (counters k n)"
proof (induction grow env k n s rule: appendN_vp.induct)
  case (1 grow env k n s)
  show ?case
  proof (cases "k <s n")
    case False
    then show ?thesis by (simp add: counters_done appendN_vp_stop)
  next
    case True
    with "1.prems" have "ok (env k)" by (simp add: word_sle_eq)
    then obtain s1 where s1: "append_vp grow (env k) s k = Inr s1"
      and l1: "length (elems (snd s1)) = Suc (length (elems (snd s)))"
      by (cases s) (simp add: append_vp_eq)
    have "\<forall>j. k + 1 \<le>s j \<and> j <s n \<longrightarrow> ok (env j)"
      using "1.prems" sint_succ [OF True] by (simp add: word_sle_eq)
    from "1.IH" [OF True this, of s1]
    obtain s' where "appendN_vp grow env (k + 1) n s1 = Inr s'"
      and "length (elems (snd s')) = length (elems (snd s1)) + length (counters (k + 1) n)"
      by blast
    then show ?thesis
      using True s1 l1 by (simp add: counters_step appendN_vp_step)
  qed
qed

text \<open>
  C3. For both containers of the program, the \<open>vector<WidgetImpl>\<close> and the
  \<open>vector<Widget>\<close>, and every count \<open>N\<close> an \<open>int\<close> can hold: when no allocation
  fails, the loop that appends \<open>N\<close> freshly constructed records to a container with
  no elements completes, and the container then has exactly \<open>N\<close> elements. The program
  runs both loops with \<open>N = 3000000\<close>.
\<close>

theorem appendN_length:
  assumes "N < 2 ^ 31" and "elems v = []" and "elems (snd s) = []"
    and "\<forall>j. 0 \<le>s j \<and> j <s of_nat N \<longrightarrow> ok (env1 j) \<and> ok (env2 j)"
  shows "(\<exists>v'. appendN_vw grow env1 0 (of_nat N) v = Inr v' \<and> length (elems v') = N)
       \<and> (\<exists>s'. appendN_vp grow env2 0 (of_nat N) s = Inr s' \<and> length (elems (snd s')) = N)"
proof -
  from assms(4) have e1: "\<forall>j. 0 \<le>s j \<and> j <s of_nat N \<longrightarrow> ok (env1 j)"
    and e2: "\<forall>j. 0 \<le>s j \<and> j <s of_nat N \<longrightarrow> ok (env2 j)"
    by blast+
  from appendN_vw_ok [OF e1, of grow v]
  obtain v' where v': "appendN_vw grow env1 0 (of_nat N) v = Inr v'"
    and f: "map fields (elems v') = map fields (elems v)
              @ map (\<lambda>j. (j, 0, 0, 0, default_name)) (counters 0 (of_nat N))"
    by blast
  from f have "length (map fields (elems v')) = N"
    using assms(1,2) by (simp add: counters_from_0)
  then have "length (elems v') = N" by simp
  moreover from appendN_vp_ok [OF e2, of grow s]
  have "\<exists>s'. appendN_vp grow env2 0 (of_nat N) s = Inr s' \<and> length (elems (snd s')) = N"
    using assms(1,3) by (simp add: counters_from_0)
  ultimately show ?thesis using v' by blast
qed

theorem appendN_length_witness:
  "(\<exists>v'. appendN_vw doubling example_loop_env 0 3000000 empty_vec = Inr v'
          \<and> length (elems v') = 3000000)
   \<and> (\<exists>s'. appendN_vp doubling example_loop_env 0 3000000 (Map.empty, empty_vec) = Inr s'
          \<and> length (elems (snd s')) = 3000000)"
  using appendN_length
    [of 3000000 empty_vec "(Map.empty, empty_vec)" example_loop_env example_loop_env doubling]
  by (simp add: empty_vec_def example_loop_env_def example_resp_def)

text \<open>
  C4. When no allocation fails, after the loop has appended the records constructed from
  \<open>0, \<dots>, N - 1\<close> to a \<open>vector<WidgetImpl>\<close> with no elements, the element at every
  index \<open>k < N\<close> has the integer member \<open>k\<close>: the copies made when the buffer grows
  keep the integer of every element.
\<close>

theorem appendN_vw_round_trip:
  assumes "N < 2 ^ 31" and "elems v = []"
    and "\<forall>j. 0 \<le>s j \<and> j <s of_nat N \<longrightarrow> ok (env j)"
  shows "\<exists>v'. appendN_vw grow env 0 (of_nat N) v = Inr v'
           \<and> length (elems v') = N
           \<and> (\<forall>k<N. sint (i (elems v' ! k)) = int k)"
proof -
  from appendN_vw_ok [OF assms(3), of grow v]
  obtain v' where v': "appendN_vw grow env 0 (of_nat N) v = Inr v'"
    and f: "map fields (elems v') = map fields (elems v)
              @ map (\<lambda>j. (j, 0, 0, 0, default_name)) (counters 0 (of_nat N))"
    by blast
  from f have f': "map fields (elems v') = map (\<lambda>j. (of_nat j, 0, 0, 0, default_name)) [0..<N]"
    using assms(1,2) by (simp add: counters_from_0 o_def)
  then have "length (map fields (elems v')) = N" by simp
  then have len: "length (elems v') = N" by simp
  have "sint (i (elems v' ! k)) = int k" if "k < N" for k
  proof -
    have "fields (elems v' ! k) = map fields (elems v') ! k"
      using that len by simp
    also have "\<dots> = (of_nat k, 0, 0, 0, default_name)"
      using that by (simp add: f')
    finally have "i (elems v' ! k) = of_nat k" by (simp add: fields_def)
    moreover have "k < 2 ^ 31" using that assms(1) by simp
    ultimately show ?thesis by (simp add: sint_of_nat_small)
  qed
  with v' len show ?thesis by blast
qed

theorem appendN_vw_round_trip_witness:
  "\<exists>v'. appendN_vw doubling example_loop_env 0 3000000 empty_vec = Inr v'
     \<and> length (elems v') = 3000000
     \<and> sint (i (elems v' ! 0)) = 0
     \<and> sint (i (elems v' ! 2999999)) = 2999999"
proof -
  from appendN_vw_round_trip [of 3000000 empty_vec example_loop_env doubling]
  obtain v' where "appendN_vw doubling example_loop_env 0 3000000 empty_vec = Inr v'"
    and "length (elems v') = 3000000"
    and all: "\<forall>k<3000000. sint (i (elems v' ! k)) = int k"
    by (auto simp: empty_vec_def example_loop_env_def example_resp_def)
  moreover from all have "sint (i (elems v' ! 0)) = int 0" by simp
  moreover from all have "sint (i (elems v' ! 2999999)) = int 2999999" by simp
  ultimately show ?thesis by auto
qed

section \<open>The statements before the loops\<close>

lemma fields_assign [simp]: "fields (WidgetImpl_assign this rhs) = fields rhs"
  by (simp add: fields_def WidgetImpl_assign_def)

lemma assign_vw_eq:
  "j < length (elems v) \<Longrightarrow> k < length (elems v) \<Longrightarrow> ok r \<Longrightarrow>
     assign_vw r v j k =
       Inr (v\<lparr>elems := (elems v)[j := WidgetImpl_assign (elems v ! j) (elems v ! k)]\<rparr>)"
  by (simp add: assign_vw_def at_def)

lemma three_vw_ok:
  assumes "\<forall>k<4. ok (env k)"
  shows "\<exists>v3. three_vw grow env n0 n1 n2 = Inr v3
           \<and> map fields (elems v3) =
               [(n0, 0, 0, 0, default_name), (n1, 0, 0, 0, default_name),
                (n2, 0, 0, 0, default_name)]"
proof -
  from assms have ok: "ok (env 0)" "ok (env 1)" "ok (env 2)"
    by simp_all
  from append_vw_ok [OF ok(1), of grow empty_vec n0]
  obtain v1 where v1: "append_vw grow (env 0) empty_vec n0 = Inr v1"
    and f1: "map fields (elems v1) = [(n0, 0, 0, 0, default_name)]"
    by (auto simp: empty_vec_def)
  from append_vw_ok [OF ok(2), of grow v1 n1]
  obtain v2 where v2: "append_vw grow (env 1) v1 n1 = Inr v2"
    and f2: "map fields (elems v2) = [(n0, 0, 0, 0, default_name), (n1, 0, 0, 0, default_name)]"
    by (auto simp: f1)
  from append_vw_ok [OF ok(3), of grow v2 n2]
  obtain v3 where v3: "append_vw grow (env 2) v2 n2 = Inr v3"
    and f3: "map fields (elems v3) =
      [(n0, 0, 0, 0, default_name), (n1, 0, 0, 0, default_name), (n2, 0, 0, 0, default_name)]"
    by (auto simp: f2)
  then show ?thesis
    using v1 v2 by (simp add: three_vw_def)
qed

text \<open>
  What lines 110 to 117 leave: index 0 has the five transferred members of index 1 and
  the array it had before the assignment; the other elements are as they were.
\<close>

lemma scenario_vw_ok:
  assumes "\<forall>k<4. ok (env k)"
  shows "\<exists>e0 e1 e2 v3.
           three_vw grow env n0 n1 n2 = Inr v3 \<and> elems v3 = [e0, e1, e2]
           \<and> fields e0 = (n0, 0, 0, 0, default_name)
           \<and> fields e1 = (n1, 0, 0, 0, default_name)
           \<and> fields e2 = (n2, 0, 0, 0, default_name)
           \<and> scenario_vw grow env n0 n1 n2
               = Inr (v3\<lparr>elems := [WidgetImpl_assign e0 e1, e1, e2]\<rparr>)"
proof -
  from three_vw_ok [OF assms, of grow n0 n1 n2]
  obtain v3 where v3: "three_vw grow env n0 n1 n2 = Inr v3"
    and f3: "map fields (elems v3) =
      [(n0, 0, 0, 0, default_name), (n1, 0, 0, 0, default_name), (n2, 0, 0, 0, default_name)]"
    by auto
  from f3 have "length (map fields (elems v3)) = 3" by simp
  then have "length (elems v3) = 3" by simp
  then obtain e0 e1 e2 where es: "elems v3 = [e0, e1, e2]"
    by (auto simp: length_Suc_conv numeral_3_eq_3)
  from assms have "ok (env 3)" by simp
  then have "assign_vw (env 3) v3 0 1 = Inr (v3\<lparr>elems := [WidgetImpl_assign e0 e1, e1, e2]\<rparr>)"
    by (simp add: assign_vw_eq es)
  then show ?thesis
    using v3 f3 es by (simp add: scenario_vw_def)
qed

text \<open>
  C6, as amended. When no allocation fails, appending the records of three integers to
  an empty \<open>vector<WidgetImpl>\<close> and then assigning index 1 to index 0 leaves three
  elements; index 0 and index 1 have the same integer, the same three doubles and the
  same text, those of the second record; the assignment does not write the array of
  index 0, which is the array index 0 had before, and leaves index 1 as it was; and
  replacing the text of index 1 afterwards leaves index 0 as it is. (The elements of the
  model are values: two elements never share storage.) The claim's scenario is the
  instance 0, 1, 2; \<open>main\<close> runs the instance 1, 2, 3.
\<close>

theorem scenario_vw_assign:
  assumes "\<forall>k<4. ok (env k)"
  shows "\<exists>v3 v. three_vw grow env n0 n1 n2 = Inr v3
           \<and> scenario_vw grow env n0 n1 n2 = Inr v
           \<and> length (elems v) = 3
           \<and> fields (elems v ! 0) = fields (elems v ! 1)
           \<and> fields (elems v ! 1) = (n1, 0, 0, 0, default_name)
           \<and> arr (elems v ! 0) = arr (elems v3 ! 0)
           \<and> elems v ! 1 = elems v3 ! 1
           \<and> (\<forall>s. (elems v)[1 := (elems v ! 1)\<lparr>name := s\<rparr>] ! 0 = elems v ! 0)"
proof -
  from scenario_vw_ok [OF assms, of grow n0 n1 n2]
  obtain e0 e1 e2 v3 where v3: "three_vw grow env n0 n1 n2 = Inr v3"
    and es: "elems v3 = [e0, e1, e2]"
    and f1: "fields e1 = (n1, 0, 0, 0, default_name)"
    and sc: "scenario_vw grow env n0 n1 n2 = Inr (v3\<lparr>elems := [WidgetImpl_assign e0 e1, e1, e2]\<rparr>)"
    by blast
  show ?thesis
    using v3 sc f1 by (simp add: es WidgetImpl_assign_def fields_def)
qed

theorem scenario_vw_assign_witness:
  "\<exists>v3 v. three_vw doubling example_resp 0 1 2 = Inr v3
     \<and> scenario_vw doubling example_resp 0 1 2 = Inr v
     \<and> length (elems v) = 3
     \<and> fields (elems v ! 0) = fields (elems v ! 1)
     \<and> fields (elems v ! 1) = (1, 0, 0, 0, default_name)
     \<and> arr (elems v ! 0) = arr (elems v3 ! 0)
     \<and> elems v ! 1 = elems v3 ! 1
     \<and> (elems v)[1 := (elems v ! 1)\<lparr>name := ''changed''\<rparr>] ! 0 = elems v ! 0"
proof -
  have "\<forall>k<4. ok (example_resp k)" by (simp add: example_resp_def)
  from scenario_vw_assign [OF this, of doubling 0 1 2]
  show ?thesis by blast
qed

text \<open>
  C6 as stated fails on the array. With the records of 0, 1, 2, a vector whose capacity
  doubles and buffers whose slot \<open>k\<close> held ten times the pattern \<open>k\<close>, the scenario
  leaves index 0 with an array of zeros and index 1 with an array of ones: the two
  elements are not equal on every member.
\<close>

theorem scenario_vw_arrays_differ:
  "scenario_vw doubling example_resp 0 1 2 =
     Inr \<lparr>elems =
            [\<lparr>i = 1, b = 0, c = 0, d = 0, name = default_name, arr = replicate 10 0\<rparr>,
             \<lparr>i = 1, b = 0, c = 0, d = 0, name = default_name, arr = replicate 10 1\<rparr>,
             \<lparr>i = 2, b = 0, c = 0, d = 0, name = default_name, arr = replicate 10 2\<rparr>],
          capacity = 4\<rparr>
   \<and> replicate 10 (0 :: double) \<noteq> replicate 10 1"
  by (simp add: scenario_vw_def three_vw_def append_vw_def push_back_vw_def assign_vw_def
      at_def empty_vec_def grown_def doubling_def example_resp_def WidgetImpl_of_int_def
      WidgetImpl_ctor_def WidgetImpl_move_def WidgetImpl_copy_def WidgetImpl_assign_def
      upt_conv_Cons)

text \<open>
  Lines 120 to 127 complete when no allocation fails: the payload \<open>vpimpl[1]\<close> points
  to is alive when \<open>vpimpl[0] = vpimpl[1]\<close> reads it.
\<close>

lemma scenario_vp_ok:
  assumes "\<forall>k<8. ok (env k)"
  shows "\<exists>s. scenario_vp grow env n0 n1 n2 = Inr s \<and> length (elems (snd s)) = 3"
proof -
  from assms have ok: "ok (env 4)" "ok (env 5)" "ok (env 6)" "ok (env 7)"
    by simp_all
  obtain h1 v1 where s1: "append_vp grow (env 4) (Map.empty, empty_vec) n0 = Inr (h1, v1)"
    and e1: "elems v1 = [\<lparr>pimpl = Some (fresh (env 4))\<rparr>]"
    using ok(1) by (simp add: append_vp_eq empty_vec_def)
  obtain h2 v2 where s2: "append_vp grow (env 5) (h1, v1) n1 = Inr (h2, v2)"
    and e2: "elems v2 = [\<lparr>pimpl = Some (fresh (env 4))\<rparr>, \<lparr>pimpl = Some (fresh (env 5))\<rparr>]"
    and l2: "h2 (fresh (env 5)) \<noteq> None"
    using ok(2) by (simp add: append_vp_eq e1)
  obtain h3 v3 where s3: "append_vp grow (env 6) (h2, v2) n2 = Inr (h3, v3)"
    and e3: "elems v3 = [\<lparr>pimpl = Some (fresh (env 4))\<rparr>, \<lparr>pimpl = Some (fresh (env 5))\<rparr>,
                         \<lparr>pimpl = Some (fresh (env 6))\<rparr>]"
    and l3: "h3 (fresh (env 5)) \<noteq> None"
    using ok(3) l2 by (simp add: append_vp_eq e2)
  from l3 obtain p where p: "h3 (fresh (env 5)) = Some p" by blast
  obtain s where "assign_vp (env 7) (h3, v3) 0 1 = Inr s" and "length (elems (snd s)) = 3"
    using ok(4) p by (simp add: assign_vp_def at_def e3 Widget_assign_eq)
  then show ?thesis
    using s1 s2 s3 by (auto simp: scenario_vp_def)
qed

section \<open>The invariant through the operations\<close>

lemma at_rest_Cons:
  "Widget_at_rest h (w # ws) =
     (\<exists>a. pimpl w = Some a \<and> h a \<noteq> None \<and> a \<notin> set (owned ws) \<and> Widget_at_rest h ws)"
  by (auto simp: Widget_at_rest_def Widget_inv_Cons split: option.splits)

lemma at_rest_inv: "Widget_at_rest h ws \<Longrightarrow> Widget_inv h ws"
  by (simp add: Widget_at_rest_def)

lemma at_rest_append:
  "Widget_at_rest h (ws @ [w]) = Widget_at_rest h (w # ws)"
proof -
  have "owned (xs @ ys) = owned xs @ owned ys" for xs ys
    by (induction xs) (auto split: option.splits)
  then show ?thesis
    by (auto simp: Widget_at_rest_def Widget_inv_def split: option.splits)
qed

lemma Widget_ctor_eq:
  "Widget_ctor r h n x y z s =
     (if ok r
      then Inr (\<lparr>pimpl = Some (fresh r)\<rparr>,
                h(fresh r \<mapsto> WidgetImpl_ctor (heap_junk r) n x y z s))
      else Inl BadAlloc)"
  by (simp add: Widget_ctor_def make_unique_def)

lemma rest_ctor:
  assumes "Widget_at_rest h ws" and "h (fresh r) = None" and "ok r"
  shows "\<exists>h1. Widget_ctor r h n x y z s = Inr (\<lparr>pimpl = Some (fresh r)\<rparr>, h1)
           \<and> h1 (fresh r) = Some (WidgetImpl_ctor (heap_junk r) n x y z s)
           \<and> Widget_at_rest h1 (\<lparr>pimpl = Some (fresh r)\<rparr> # ws)"
proof -
  let ?h1 = "h(fresh r \<mapsto> WidgetImpl_ctor (heap_junk r) n x y z s)"
  have c: "Widget_ctor r h n x y z s = Inr (\<lparr>pimpl = Some (fresh r)\<rparr>, ?h1)"
    using assms(3) by (simp add: Widget_ctor_eq)
  from inv_ctor [OF at_rest_inv [OF assms(1)] assms(2) c]
  have "Widget_inv ?h1 (\<lparr>pimpl = Some (fresh r)\<rparr> # ws)" .
  then have "Widget_at_rest ?h1 (\<lparr>pimpl = Some (fresh r)\<rparr> # ws)"
    using assms(1) by (simp add: Widget_at_rest_def)
  with c show ?thesis by simp
qed

lemma rest_assign:
  assumes "Widget_at_rest h (this # rhs # ws)" and "h (fresh r) = None" and "ok r"
  shows "\<exists>h2. Widget_assign r h this rhs = Inr (\<lparr>pimpl = Some (fresh r)\<rparr>, h2)
           \<and> Widget_at_rest h2 (\<lparr>pimpl = Some (fresh r)\<rparr> # rhs # ws)"
proof -
  from assms(1) obtain a v where a: "pimpl rhs = Some a" and v: "h a = Some v"
    by (auto simp: at_rest_Cons)
  then obtain h2 where c: "Widget_assign r h this rhs = Inr (\<lparr>pimpl = Some (fresh r)\<rparr>, h2)"
    using assms(3) by (simp add: Widget_assign_eq)
  from inv_assign [OF at_rest_inv [OF assms(1)] assms(2) c]
  have "Widget_inv h2 (\<lparr>pimpl = Some (fresh r)\<rparr> # rhs # ws)" .
  then have "Widget_at_rest h2 (\<lparr>pimpl = Some (fresh r)\<rparr> # rhs # ws)"
    using assms(1) by (simp add: Widget_at_rest_def)
  with c show ?thesis by blast
qed

lemma rest_self_assign:
  assumes "Widget_at_rest h (this # ws)" and "h (fresh r) = None" and "ok r"
  shows "\<exists>h3. Widget_assign r h this this = Inr (\<lparr>pimpl = Some (fresh r)\<rparr>, h3)
           \<and> Widget_at_rest h3 (\<lparr>pimpl = Some (fresh r)\<rparr> # ws)"
proof -
  from assms(1) obtain a v where a: "pimpl this = Some a" and v: "h a = Some v"
    by (auto simp: at_rest_Cons)
  then obtain h3 where c: "Widget_assign r h this this = Inr (\<lparr>pimpl = Some (fresh r)\<rparr>, h3)"
    using assms(3) by (simp add: Widget_assign_eq)
  from inv_self_assign [OF at_rest_inv [OF assms(1)] assms(2) c]
  have "Widget_inv h3 (\<lparr>pimpl = Some (fresh r)\<rparr> # ws)" .
  then have "Widget_at_rest h3 (\<lparr>pimpl = Some (fresh r)\<rparr> # ws)"
    using assms(1) by (simp add: Widget_at_rest_def)
  with c show ?thesis by blast
qed

lemma rest_move:
  assumes "Widget_at_rest h (rhs # ws)"
  shows "(case Widget_move h rhs of
            (h4, w4, rhs4) \<Rightarrow>
              h4 = h \<and> pimpl w4 = pimpl rhs \<and> pimpl w4 \<noteq> None \<and> pimpl rhs4 = None
              \<and> Widget_inv h4 (w4 # rhs4 # ws)
              \<and> \<not> Widget_at_rest h4 (w4 # rhs4 # ws)
              \<and> Widget_at_rest (Widget_dtor h4 rhs4) (w4 # ws))"
  using assms inv_move [OF at_rest_inv [OF assms], of h rhs "rhs\<lparr>pimpl := None\<rparr>"]
  by (auto simp: Widget_move_eq at_rest_Cons)

lemma rest_dtor:
  assumes "Widget_at_rest h (w # ws)"
  shows "Widget_at_rest (Widget_dtor h w) ws \<and> deref (Widget_dtor h w) (pimpl w) = Inl DanglingDeref"
proof -
  from assms obtain a where a: "pimpl w = Some a" and na: "a \<notin> set (owned ws)"
    and rest: "Widget_at_rest h ws"
    by (auto simp: at_rest_Cons)
  from rest na have "Widget_inv (h(a := None)) ws"
    by (simp add: Widget_at_rest_def Widget_inv_free)
  with rest a show ?thesis
    by (simp add: Widget_at_rest_def Widget_dtor_def delete_ptr_def deref_def)
qed

lemma rest_append_vp:
  assumes "Widget_at_rest h (elems v)" and "h (fresh r) = None" and "ok r"
  shows "\<exists>h' v'. append_vp grow r (h, v) n = Inr (h', v')
           \<and> elems v' = elems v @ [\<lparr>pimpl = Some (fresh r)\<rparr>]
           \<and> Widget_at_rest h' (elems v')"
proof -
  from rest_ctor [OF assms, of n 0 0 0 default_name]
  have "Widget_at_rest (h(fresh r \<mapsto> WidgetImpl_ctor (heap_junk r) n 0 0 0 default_name))
          (\<lparr>pimpl = Some (fresh r)\<rparr> # elems v)"
    by (auto simp: Widget_ctor_eq assms(3))
  then show ?thesis
    using assms(3) by (simp add: append_vp_eq at_rest_append WidgetImpl_of_int_def)
qed

text \<open>
  C5. At rest, every \<open>Widget\<close> alive owns a payload: its \<open>pimpl\<close> is not null, it
  points to a constructed payload on the heap, and no other \<open>Widget\<close> owns that
  payload (\<open>Widget_at_rest\<close>). Every operation of the class keeps this, the allocator
  returning storage that is not in use:
  \<^item> a construction whose allocation succeeds returns a \<open>Widget\<close> that owns the newly
    constructed payload, and one whose allocation fails returns no \<open>Widget\<close>;
  \<^item> a copy assignment whose allocation succeeds, to another object or to itself,
    completes and leaves the destination owning the new payload;
  \<^item> a copy assignment from a source that holds null does not complete: it is the
    undefined read through null;
  \<^item> a move construction leaves the heap as it was, the new \<open>Widget\<close> owning what the
    source owned and the source holding null. This is the only way a \<open>pimpl\<close> becomes
    null; in that state the invariant that admits null (\<open>Widget_inv\<close>) holds and the
    one at rest does not, and it holds again once the source is destroyed, which
    releases nothing;
  \<^item> a destruction releases the payload and leaves the other \<open>Widget\<close>s at rest;
  \<^item> the statement \<open>vpimpl.push_back(Widget(n))\<close>, which constructs a temporary, moves
    from it, moves every element when the buffer grows, and destroys what it moved from,
    takes a vector at rest to a vector at rest: the null state does not outlive the
    statement.

  While some \<open>Widget\<close> holds null, in the middle of such a transfer, each operation that
  completes keeps the invariant that admits null.
\<close>

theorem Widget_invariant:
  "(Widget_at_rest h ws \<and> h (fresh r) = None \<and> ok r \<longrightarrow>
      (\<exists>h1. Widget_ctor r h n x y z s = Inr (\<lparr>pimpl = Some (fresh r)\<rparr>, h1)
         \<and> h1 (fresh r) = Some (WidgetImpl_ctor (heap_junk r) n x y z s)
         \<and> Widget_at_rest h1 (\<lparr>pimpl = Some (fresh r)\<rparr> # ws))) \<and>
   (\<not> ok r \<longrightarrow> Widget_ctor r h n x y z s = Inl BadAlloc) \<and>
   (Widget_at_rest h (this # rhs # ws) \<and> h (fresh r) = None \<and> ok r \<longrightarrow>
      (\<exists>h2. Widget_assign r h this rhs = Inr (\<lparr>pimpl = Some (fresh r)\<rparr>, h2)
         \<and> Widget_at_rest h2 (\<lparr>pimpl = Some (fresh r)\<rparr> # rhs # ws))) \<and>
   (Widget_at_rest h (this # ws) \<and> h (fresh r) = None \<and> ok r \<longrightarrow>
      (\<exists>h3. Widget_assign r h this this = Inr (\<lparr>pimpl = Some (fresh r)\<rparr>, h3)
         \<and> Widget_at_rest h3 (\<lparr>pimpl = Some (fresh r)\<rparr> # ws))) \<and>
   (pimpl rhs = None \<longrightarrow> Widget_assign r h this rhs = Inl NullDeref) \<and>
   (Widget_at_rest h (rhs # ws) \<longrightarrow>
      (case Widget_move h rhs of
         (h4, w4, rhs4) \<Rightarrow>
           h4 = h \<and> pimpl w4 = pimpl rhs \<and> pimpl w4 \<noteq> None \<and> pimpl rhs4 = None
           \<and> Widget_inv h4 (w4 # rhs4 # ws)
           \<and> \<not> Widget_at_rest h4 (w4 # rhs4 # ws)
           \<and> Widget_at_rest (Widget_dtor h4 rhs4) (w4 # ws))) \<and>
   (Widget_at_rest h (w # ws) \<longrightarrow>
      Widget_at_rest (Widget_dtor h w) ws
      \<and> deref (Widget_dtor h w) (pimpl w) = Inl DanglingDeref) \<and>
   (Widget_at_rest h (elems v) \<and> h (fresh r) = None \<and> ok r \<longrightarrow>
      (\<exists>h' v'. append_vp grow r (h, v) m = Inr (h', v')
         \<and> elems v' = elems v @ [\<lparr>pimpl = Some (fresh r)\<rparr>]
         \<and> Widget_at_rest h' (elems v'))) \<and>
   (Widget_inv h ws \<and> h (fresh r) = None \<and> Widget_ctor r h n x y z s = Inr (w1, h1)
      \<longrightarrow> Widget_inv h1 (w1 # ws)) \<and>
   (Widget_inv h (this # rhs # ws) \<and> h (fresh r) = None
      \<and> Widget_assign r h this rhs = Inr (w2, h2)
      \<longrightarrow> Widget_inv h2 (w2 # rhs # ws)) \<and>
   (Widget_inv h (this # ws) \<and> h (fresh r) = None
      \<and> Widget_assign r h this this = Inr (w3, h3)
      \<longrightarrow> Widget_inv h3 (w3 # ws)) \<and>
   (Widget_inv h (rhs # ws) \<and> Widget_move h rhs = (h4, w4, rhs4)
      \<longrightarrow> Widget_inv h4 (w4 # rhs4 # ws)) \<and>
   (Widget_inv h (w # ws) \<longrightarrow> Widget_inv (Widget_dtor h w) ws)"
  apply (intro conjI)
  subgoal using rest_ctor [of h ws r n x y z s] by blast
  subgoal by (simp add: Widget_ctor_eq)
  subgoal using rest_assign [of h this rhs ws r] by blast
  subgoal using rest_self_assign [of h this ws r] by blast
  subgoal by (simp add: Widget_assign_eq)
  subgoal using rest_move [of h rhs ws] by blast
  subgoal using rest_dtor [of h w ws] by blast
  subgoal using rest_append_vp [of h v r grow m] by blast
  subgoal using inv_ctor [of h ws r n x y z s w1 h1] by blast
  subgoal using inv_assign [of h this rhs ws r w2 h2] by blast
  subgoal using inv_self_assign [of h this ws r w3 h3] by blast
  subgoal using inv_move [of h rhs ws h4 w4 rhs4] by blast
  subgoal using inv_dtor [of h w ws] by blast
  done

theorem Widget_invariant_witness:
  "(\<exists>h1. Widget_ctor (example_resp 2) example_heap 7 0 0 0 default_name
             = Inr (\<lparr>pimpl = Some 2\<rparr>, h1)
         \<and> h1 2 = Some (WidgetImpl_ctor (replicate 10 2) 7 0 0 0 default_name)
         \<and> Widget_at_rest h1 [\<lparr>pimpl = Some 2\<rparr>, \<lparr>pimpl = Some 1\<rparr>, \<lparr>pimpl = Some 0\<rparr>])
   \<and> Widget_ctor (example_resp 2\<lparr>ok := False\<rparr>) example_heap 7 0 0 0 default_name
         = Inl BadAlloc
   \<and> (\<exists>h2. Widget_assign (example_resp 2) example_heap \<lparr>pimpl = Some 1\<rparr> \<lparr>pimpl = Some 0\<rparr>
             = Inr (\<lparr>pimpl = Some 2\<rparr>, h2)
         \<and> Widget_at_rest h2 [\<lparr>pimpl = Some 2\<rparr>, \<lparr>pimpl = Some 0\<rparr>])
   \<and> (\<exists>h3. Widget_assign (example_resp 2) example_heap \<lparr>pimpl = Some 1\<rparr> \<lparr>pimpl = Some 1\<rparr>
             = Inr (\<lparr>pimpl = Some 2\<rparr>, h3)
         \<and> Widget_at_rest h3 [\<lparr>pimpl = Some 2\<rparr>, \<lparr>pimpl = Some 0\<rparr>])
   \<and> Widget_assign (example_resp 2) example_heap \<lparr>pimpl = Some 1\<rparr> \<lparr>pimpl = None\<rparr>
         = Inl NullDeref
   \<and> (case Widget_move example_heap \<lparr>pimpl = Some 0\<rparr> of
         (h4, w4, rhs4) \<Rightarrow>
           h4 = example_heap \<and> pimpl w4 = Some 0 \<and> pimpl rhs4 = None
           \<and> Widget_inv h4 [w4, rhs4, \<lparr>pimpl = Some 1\<rparr>]
           \<and> \<not> Widget_at_rest h4 [w4, rhs4, \<lparr>pimpl = Some 1\<rparr>]
           \<and> Widget_at_rest (Widget_dtor h4 rhs4) [w4, \<lparr>pimpl = Some 1\<rparr>])
   \<and> Widget_at_rest (Widget_dtor example_heap \<lparr>pimpl = Some 1\<rparr>) [\<lparr>pimpl = Some 0\<rparr>]
   \<and> deref (Widget_dtor example_heap \<lparr>pimpl = Some 1\<rparr>) (Some 1) = Inl DanglingDeref
   \<and> (\<exists>h' v'. append_vp doubling (example_resp 2)
                  (example_heap, \<lparr>elems = [\<lparr>pimpl = Some 0\<rparr>, \<lparr>pimpl = Some 1\<rparr>], capacity = 2\<rparr>) 7
                = Inr (h', v')
         \<and> elems v' = [\<lparr>pimpl = Some 0\<rparr>, \<lparr>pimpl = Some 1\<rparr>, \<lparr>pimpl = Some 2\<rparr>]
         \<and> Widget_at_rest h' (elems v'))
   \<and> (case Widget_ctor (example_resp 2) example_heap 7 0 0 0 default_name of
         Inr (w, h') \<Rightarrow> Widget_inv h' [w, \<lparr>pimpl = None\<rparr>, \<lparr>pimpl = Some 1\<rparr>, \<lparr>pimpl = Some 0\<rparr>]
       | Inl e \<Rightarrow> False)
   \<and> (case Widget_assign (example_resp 2) example_heap \<lparr>pimpl = Some 1\<rparr> \<lparr>pimpl = Some 0\<rparr> of
         Inr (w, h') \<Rightarrow> Widget_inv h' [w, \<lparr>pimpl = Some 0\<rparr>, \<lparr>pimpl = None\<rparr>]
       | Inl e \<Rightarrow> False)
   \<and> (case Widget_assign (example_resp 2) example_heap \<lparr>pimpl = Some 1\<rparr> \<lparr>pimpl = Some 1\<rparr> of
         Inr (w, h') \<Rightarrow> Widget_inv h' [w, \<lparr>pimpl = None\<rparr>, \<lparr>pimpl = Some 0\<rparr>]
       | Inl e \<Rightarrow> False)
   \<and> (case Widget_move example_heap \<lparr>pimpl = Some 0\<rparr> of
         (h', w, rhs') \<Rightarrow> Widget_inv h' [w, rhs', \<lparr>pimpl = None\<rparr>, \<lparr>pimpl = Some 1\<rparr>])
   \<and> Widget_inv (Widget_dtor example_heap \<lparr>pimpl = None\<rparr>) [\<lparr>pimpl = Some 1\<rparr>, \<lparr>pimpl = Some 0\<rparr>]"
proof -
  let ?r = "example_resp 2" and ?H = example_heap
  let ?w0 = "\<lparr>pimpl = Some 0\<rparr>" and ?w1 = "\<lparr>pimpl = Some 1\<rparr>" and ?w2 = "\<lparr>pimpl = Some 2\<rparr>"
  let ?null = "\<lparr>pimpl = None\<rparr>"
  let ?v = "\<lparr>elems = [?w0, ?w1], capacity = 2\<rparr>"
  have r: "fresh ?r = 2" "heap_junk ?r = replicate 10 2" "ok ?r" "\<not> ok (?r\<lparr>ok := False\<rparr>)"
    by (simp_all add: example_resp_def)
  have fresh: "?H (fresh ?r) = None"
    by (simp add: example_heap_def example_resp_def)
  have rest: "Widget_at_rest ?H [?w1, ?w0]" "Widget_at_rest ?H [?w0, ?w1]"
    "Widget_at_rest ?H (elems ?v)"
    by (simp_all add: Widget_at_rest_def Widget_inv_def example_heap_def)
  have inv: "Widget_inv ?H [?null, ?w1, ?w0]" "Widget_inv ?H [?w1, ?w0, ?null]"
    "Widget_inv ?H [?w1, ?null, ?w0]" "Widget_inv ?H [?w0, ?null, ?w1]"
    by (simp_all add: Widget_inv_def example_heap_def)
  obtain g1 where c1: "Widget_ctor ?r ?H 7 0 0 0 default_name = Inr (?w2, g1)"
    by (simp add: Widget_ctor_def make_unique_def example_resp_def)
  obtain g2 where c2: "Widget_assign ?r ?H ?w1 ?w0 = Inr (?w2, g2)"
    by (simp add: Widget_assign_eq example_heap_def example_resp_def)
  obtain g3 where c3: "Widget_assign ?r ?H ?w1 ?w1 = Inr (?w2, g3)"
    by (simp add: Widget_assign_eq example_heap_def example_resp_def)
  have c4: "Widget_move ?H ?w0 = (?H, ?w0, ?null)"
    by (simp add: Widget_move_def unique_ptr_move_def)
  have a1: "Widget_at_rest ?H [?w1, ?w0] \<and> ?H (fresh ?r) = None \<and> ok ?r"
    and a3: "Widget_at_rest ?H (?w1 # ?w0 # []) \<and> ?H (fresh ?r) = None \<and> ok ?r"
    and a4: "Widget_at_rest ?H [?w1, ?w0] \<and> ?H (fresh ?r) = None \<and> ok ?r"
    and a8: "Widget_at_rest ?H (elems ?v) \<and> ?H (fresh ?r) = None \<and> ok ?r"
    using rest fresh r(3) by blast+
  have b1: "Widget_inv ?H [?null, ?w1, ?w0] \<and> ?H (fresh ?r) = None
      \<and> Widget_ctor ?r ?H 7 0 0 0 default_name = Inr (?w2, g1)"
    and b2: "Widget_inv ?H [?w1, ?w0, ?null] \<and> ?H (fresh ?r) = None
      \<and> Widget_assign ?r ?H ?w1 ?w0 = Inr (?w2, g2)"
    and b3: "Widget_inv ?H [?w1, ?null, ?w0] \<and> ?H (fresh ?r) = None
      \<and> Widget_assign ?r ?H ?w1 ?w1 = Inr (?w2, g3)"
    and b4: "Widget_inv ?H [?w0, ?null, ?w1] \<and> Widget_move ?H ?w0 = (?H, ?w0, ?null)"
    using inv fresh c1 c2 c3 c4 by blast+
  have n5: "pimpl ?null = None" by simp
  have p1: "\<exists>h1. Widget_ctor ?r ?H 7 0 0 0 default_name = Inr (\<lparr>pimpl = Some (fresh ?r)\<rparr>, h1)
         \<and> h1 (fresh ?r) = Some (WidgetImpl_ctor (heap_junk ?r) 7 0 0 0 default_name)
         \<and> Widget_at_rest h1 [\<lparr>pimpl = Some (fresh ?r)\<rparr>, ?w1, ?w0]"
    by (rule Widget_invariant [where h = ?H and ws = "[?w1, ?w0]" and r = ?r and n = 7 and x = 0 and y = 0 and z = 0 and s = default_name,
          THEN conjunct1, THEN mp, OF a1])
  have p2: "Widget_ctor (?r\<lparr>ok := False\<rparr>) ?H 7 0 0 0 default_name = Inl BadAlloc"
    by (rule Widget_invariant [where h = ?H and r = "?r\<lparr>ok := False\<rparr>" and n = 7 and x = 0 and y = 0 and z = 0 and s = default_name,
          THEN conjunct2, THEN conjunct1, THEN mp, OF r(4)])
  have p3: "\<exists>h2. Widget_assign ?r ?H ?w1 ?w0 = Inr (\<lparr>pimpl = Some (fresh ?r)\<rparr>, h2)
         \<and> Widget_at_rest h2 [\<lparr>pimpl = Some (fresh ?r)\<rparr>, ?w0]"
    by (rule Widget_invariant [where h = ?H and ws = "[]" and r = ?r and this = ?w1 and rhs = ?w0,
          THEN conjunct2, THEN conjunct2, THEN conjunct1, THEN mp, OF a3])
  have p4: "\<exists>h3. Widget_assign ?r ?H ?w1 ?w1 = Inr (\<lparr>pimpl = Some (fresh ?r)\<rparr>, h3)
         \<and> Widget_at_rest h3 [\<lparr>pimpl = Some (fresh ?r)\<rparr>, ?w0]"
    by (rule Widget_invariant [where h = ?H and ws = "[?w0]" and r = ?r and this = ?w1,
          THEN conjunct2, THEN conjunct2, THEN conjunct2, THEN conjunct1, THEN mp, OF a4])
  have p5: "Widget_assign ?r ?H ?w1 ?null = Inl NullDeref"
    by (rule Widget_invariant [where h = ?H and r = ?r and this = ?w1 and rhs = ?null,
          THEN conjunct2, THEN conjunct2, THEN conjunct2, THEN conjunct2, THEN conjunct1, THEN mp, OF n5])
  have p6: "case Widget_move ?H ?w0 of
         (h4, w4, rhs4) \<Rightarrow>
           h4 = ?H \<and> pimpl w4 = pimpl ?w0 \<and> pimpl w4 \<noteq> None \<and> pimpl rhs4 = None
           \<and> Widget_inv h4 [w4, rhs4, ?w1]
           \<and> \<not> Widget_at_rest h4 [w4, rhs4, ?w1]
           \<and> Widget_at_rest (Widget_dtor h4 rhs4) [w4, ?w1]"
    by (rule Widget_invariant [where h = ?H and ws = "[?w1]" and rhs = ?w0,
          THEN conjunct2, THEN conjunct2, THEN conjunct2, THEN conjunct2, THEN conjunct2, THEN conjunct1, THEN mp, OF rest(2)])
  have p7: "Widget_at_rest (Widget_dtor ?H ?w1) [?w0]
      \<and> deref (Widget_dtor ?H ?w1) (pimpl ?w1) = Inl DanglingDeref"
    by (rule Widget_invariant [where h = ?H and ws = "[?w0]" and w = ?w1,
          THEN conjunct2, THEN conjunct2, THEN conjunct2, THEN conjunct2, THEN conjunct2, THEN conjunct2, THEN conjunct1, THEN mp, OF rest(1)])
  have p8: "\<exists>h' v'. append_vp doubling ?r (?H, ?v) 7 = Inr (h', v')
         \<and> elems v' = elems ?v @ [\<lparr>pimpl = Some (fresh ?r)\<rparr>]
         \<and> Widget_at_rest h' (elems v')"
    by (rule Widget_invariant [where h = ?H and v = ?v and r = ?r and grow = doubling and m = 7,
          THEN conjunct2, THEN conjunct2, THEN conjunct2, THEN conjunct2, THEN conjunct2, THEN conjunct2, THEN conjunct2, THEN conjunct1, THEN mp, OF a8])
  have q1: "Widget_inv g1 [?w2, ?null, ?w1, ?w0]"
    by (rule Widget_invariant [where h = ?H and ws = "[?null, ?w1, ?w0]" and r = ?r and n = 7 and x = 0 and y = 0 and z = 0 and s = default_name and ?w1.0 = ?w2 and ?h1.0 = g1,
          THEN conjunct2, THEN conjunct2, THEN conjunct2, THEN conjunct2, THEN conjunct2, THEN conjunct2, THEN conjunct2, THEN conjunct2, THEN conjunct1, THEN mp, OF b1])
  have q2: "Widget_inv g2 [?w2, ?w0, ?null]"
    by (rule Widget_invariant [where h = ?H and ws = "[?null]" and r = ?r and this = ?w1 and rhs = ?w0 and ?w2.0 = ?w2 and ?h2.0 = g2,
          THEN conjunct2, THEN conjunct2, THEN conjunct2, THEN conjunct2, THEN conjunct2, THEN conjunct2, THEN conjunct2, THEN conjunct2, THEN conjunct2, THEN conjunct1, THEN mp, OF b2])
  have q3: "Widget_inv g3 [?w2, ?null, ?w0]"
    by (rule Widget_invariant [where h = ?H and ws = "[?null, ?w0]" and r = ?r and this = ?w1 and ?w3.0 = ?w2 and ?h3.0 = g3,
          THEN conjunct2, THEN conjunct2, THEN conjunct2, THEN conjunct2, THEN conjunct2, THEN conjunct2, THEN conjunct2, THEN conjunct2, THEN conjunct2, THEN conjunct2, THEN conjunct1, THEN mp, OF b3])
  have q4: "Widget_inv ?H [?w0, ?null, ?null, ?w1]"
    by (rule Widget_invariant [where h = ?H and ws = "[?null, ?w1]" and rhs = ?w0 and ?h4.0 = ?H and ?w4.0 = ?w0 and ?rhs4.0 = ?null,
          THEN conjunct2, THEN conjunct2, THEN conjunct2, THEN conjunct2, THEN conjunct2, THEN conjunct2, THEN conjunct2, THEN conjunct2, THEN conjunct2, THEN conjunct2, THEN conjunct2, THEN conjunct1, THEN mp, OF b4])
  have q5: "Widget_inv (Widget_dtor ?H ?null) [?w1, ?w0]"
    by (rule Widget_invariant [where h = ?H and ws = "[?w1, ?w0]" and w = ?null,
          THEN conjunct2, THEN conjunct2, THEN conjunct2, THEN conjunct2, THEN conjunct2, THEN conjunct2, THEN conjunct2, THEN conjunct2, THEN conjunct2, THEN conjunct2, THEN conjunct2, THEN conjunct2, THEN mp, OF inv(1)])
  from p1 p2 p3 p4 p5 p6 p7 p8 q1 q2 q3 q4 q5 show ?thesis
    unfolding c1 c2 c3 c4 by (simp add: r)
qed

section \<open>The whole run\<close>

text \<open>
  C8. \<open>main\<close> never reads \<open>argc\<close> and \<open>argv\<close>: the run is the same for all
  arguments. When no allocation fails (in none of the eight statements before the loops
  and in no iteration of the two loops), the run writes exactly two lines and \<open>main\<close>
  returns 0. The first line is the text of the time elapsed between the two clock
  readings around the first loop, the second line that of the time elapsed between the
  two readings around the second loop, each followed by a space and the unit.
\<close>

theorem main_two_lines:
  assumes "\<forall>k<8. ok (setup_env w k)"
    and "\<forall>j. 0 \<le>s j \<and> j <s 3000000 \<longrightarrow> ok (loop1_env w j) \<and> ok (loop2_env w j)"
  shows "main argc argv w =
           ([show_seconds w (now w 1 - now w 0) @ [CHR 0x20, CHR 0xEC, CHR 0xB4, CHR 0x88],
             show_seconds w (now w 3 - now w 2) @ [CHR 0x20, CHR 0xEC, CHR 0xB4, CHR 0x88]],
            Inr 0)
         \<and> length (fst (main argc argv w)) = 2
         \<and> main argc' argv' w = main argc argv w"
proof -
  from assms(1) have "\<forall>k<4. ok (setup_env w k)" by simp
  from scenario_vw_ok [OF this]
  obtain vw where vw: "scenario_vw (grow_policy w) (setup_env w) 1 2 3 = Inr vw"
    by blast
  from scenario_vp_ok [OF assms(1)]
  obtain vp where vp: "scenario_vp (grow_policy w) (setup_env w) 1 2 3 = Inr vp"
    by blast
  from assms(2) have e1: "\<forall>j. 0 \<le>s j \<and> j <s 3000000 \<longrightarrow> ok (loop1_env w j)"
    and e2: "\<forall>j. 0 \<le>s j \<and> j <s 3000000 \<longrightarrow> ok (loop2_env w j)"
    by blast+
  from appendN_vw_ok [OF e1]
  obtain vw' where
    vw': "appendN_vw (grow_policy w) (loop1_env w) 0 3000000 (clear_vw vw) = Inr vw'"
    by blast
  from appendN_vp_ok [OF e2]
  obtain vp' where
    vp': "appendN_vp (grow_policy w) (loop2_env w) 0 3000000 (clear_vp vp) = Inr vp'"
    by blast
  have "main argc argv w =
          ([show_seconds w (now w 1 - now w 0) @ [CHR 0x20, CHR 0xEC, CHR 0xB4, CHR 0x88],
            show_seconds w (now w 3 - now w 2) @ [CHR 0x20, CHR 0xEC, CHR 0xB4, CHR 0x88]],
           Inr 0)"
    by (simp add: main_def vw vp vw' vp' report_def)
  moreover have "main argc' argv' w = main argc argv w"
    by (simp add: main_def)
  ultimately show ?thesis by simp
qed

theorem main_two_lines_witness:
  "main 1 [''a.out''] example_world =
     ([''1e-06'' @ [CHR 0x20, CHR 0xEC, CHR 0xB4, CHR 0x88],
       ''5e-06'' @ [CHR 0x20, CHR 0xEC, CHR 0xB4, CHR 0x88]], Inr 0)
   \<and> length (fst (main 1 [''a.out''] example_world)) = 2
   \<and> main 3 [''a.out'', ''x'', ''y''] example_world = main 1 [''a.out''] example_world"
  using main_two_lines [of example_world 1 "[''a.out'']" 3 "[''a.out'', ''x'', ''y'']"]
  by (simp add: example_world_def example_loop_env_def example_resp_def)

end
